theory Spec2Isabelle
  imports Main "HOL-Library.Word" "HOL-Library.Signed_Division"
begin

section \<open>Go values used by the package\<close>

text \<open>
  The package \<^verbatim>\<open>cinema\<close> (file \<^verbatim>\<open>cinema.go\<close>) builds ffmpeg command lines.
  \<^verbatim>\<open>time.Duration\<close> is an \<^verbatim>\<open>int64\<close> count of nanoseconds; Go's \<^verbatim>\<open>int\<close> is taken at
  its 64-bit width. Both are 64-bit words read as two's complement: comparisons are the
  signed ones (\<open><s\<close>, \<open>\<le>s\<close>) and subtraction wraps around.
\<close>

type_synonym int64 = "64 word"
type_synonym Duration = "64 word"

definition Second :: Duration where
  "Second = 1000000000"

text \<open>
  \<^verbatim>\<open>strconv.Itoa\<close>, which is also what the verb \<^verbatim>\<open>%d\<close> of \<^verbatim>\<open>fmt.Sprintf\<close> prints for an
  \<^verbatim>\<open>int\<close>: the decimal digits of the magnitude, after a minus sign for a negative value.
\<close>

definition digit :: "nat \<Rightarrow> char" where
  "digit d = ''0123456789'' ! d"

function decimal :: "nat \<Rightarrow> string" where
  "decimal n = (if n < 10 then [digit n] else decimal (n div 10) @ [digit (n mod 10)])"
  by pat_completeness auto
termination
  by (relation "measure (\<lambda>n. n)") auto

declare decimal.simps [simp del]

definition Itoa :: "int64 \<Rightarrow> string" where
  "Itoa i = (if sint i < 0 then CHR ''-'' # decimal (nat (- sint i)) else decimal (nat (sint i)))"

text \<open>
  \<^verbatim>\<open>strings.Join\<close>: the elements in order, the separator between every two neighbours,
  the empty string for no element.
\<close>

fun strings_Join :: "string list \<Rightarrow> string \<Rightarrow> string" where
  "strings_Join [] sep = []"
| "strings_Join [e] sep = e"
| "strings_Join (e # es) sep = e @ sep @ strings_Join es sep"

section \<open>Video and its edit operations\<close>

record Video =
  filepath :: string
  width :: int64
  height :: int64
  fps :: int64
  bitrate :: int64
  start :: Duration
  end' :: Duration
  duration :: Duration
  filters :: "string list"
  additionalArgs :: "string list"

text \<open>
  \<^verbatim>\<open>clampToDuration\<close>: two assignments in sequence, first \<^verbatim>\<open>if t < 0 { t = 0 }\<close>, then
  \<^verbatim>\<open>if t > v.duration { t = v.duration }\<close>.
\<close>

definition clampToDuration :: "Video \<Rightarrow> Duration \<Rightarrow> Duration" where
  "clampToDuration v t =
     (let t1 = (if t <s 0 then 0 else t);
          t2 = (if duration v <s t1 then duration v else t1)
      in t2)"

definition SetStart :: "Video \<Rightarrow> Duration \<Rightarrow> Video" where
  "SetStart v t =
     (let v1 = v\<lparr>start := clampToDuration v t\<rparr>
      in if end' v1 <s start v1 then v1\<lparr>end' := start v1\<rparr> else v1)"

definition SetEnd :: "Video \<Rightarrow> Duration \<Rightarrow> Video" where
  "SetEnd v t =
     (let v1 = v\<lparr>end' := clampToDuration v t\<rparr>
      in if end' v1 <s start v1 then v1\<lparr>start := end' v1\<rparr> else v1)"

definition Trim :: "Video \<Rightarrow> Duration \<Rightarrow> Duration \<Rightarrow> Video" where
  "Trim v s e = (if s \<le>s e then SetEnd (SetStart v s) e else v)"

definition SetFPS :: "Video \<Rightarrow> int64 \<Rightarrow> Video" where
  "SetFPS v f = v\<lparr>fps := f\<rparr>"

definition SetBitrate :: "Video \<Rightarrow> int64 \<Rightarrow> Video" where
  "SetBitrate v b = v\<lparr>bitrate := b\<rparr>"

definition SetSize :: "Video \<Rightarrow> int64 \<Rightarrow> int64 \<Rightarrow> Video" where
  "SetSize v w h =
     v\<lparr>width := w, height := h,
       filters := filters v @ [''scale='' @ Itoa w @ '':'' @ Itoa h]\<rparr>"

definition Crop :: "Video \<Rightarrow> int64 \<Rightarrow> int64 \<Rightarrow> int64 \<Rightarrow> int64 \<Rightarrow> Video" where
  "Crop v x y w h =
     v\<lparr>width := w, height := h,
       filters := filters v @ [''crop='' @ Itoa w @ '':'' @ Itoa h @ '':'' @ Itoa x @ '':'' @ Itoa y]\<rparr>"

definition Mute :: "Video \<Rightarrow> Video" where
  "Mute v = v\<lparr>additionalArgs := additionalArgs v @ [''-an'']\<rparr>"

text \<open>
  \<^verbatim>\<open>Video.CommandLine\<close>. The two time arguments are printed by
  \<^verbatim>\<open>strconv.FormatFloat(d.Seconds(), 'f', -1, 64)\<close>, a floating-point computation; it is the
  parameter \<open>secs\<close> here, applied to the duration it is called on.
\<close>

definition CommandLine :: "(Duration \<Rightarrow> string) \<Rightarrow> Video \<Rightarrow> string \<Rightarrow> string list" where
  "CommandLine secs v output =
     (let filters0 = (if length (filters v) > 0 then strings_Join (filters v) '','' @ '','' else []);
          filters1 = filters0 @ ''setsar=1,fps=fps='' @ Itoa (fps v);
          cmdline = [''ffmpeg'', ''-y'', ''-i'', filepath v,
                     ''-ss'', secs (start v),
                     ''-t'', secs (end' v - start v),
                     ''-vb'', Itoa (bitrate v)];
          cmdline = cmdline @ additionalArgs v;
          cmdline = cmdline @ [''-vf'', filters1, ''-strict'', ''-2''];
          cmdline = cmdline @ [output]
      in cmdline)"

text \<open>
  On a duration of whole seconds \<^verbatim>\<open>d.Seconds()\<close> is the integer \<^verbatim>\<open>d / Second\<close> as a float
  (exact below \<open>2^53\<close>), which format \<^verbatim>\<open>'f'\<close> with precision \<^verbatim>\<open>-1\<close> prints as its decimal
  digits with no fraction. \<open>WholeSeconds\<close> is the printer on such durations, used to run
  \<open>CommandLine\<close> on concrete videos.
\<close>

definition WholeSeconds :: "Duration \<Rightarrow> string" where
  "WholeSeconds d = Itoa (word_of_int (sint d sdiv sint Second))"

text \<open>A call of one of the edit methods, and a sequence of calls applied in order.\<close>

datatype call =
    CallSetStart Duration
  | CallSetEnd Duration
  | CallTrim Duration Duration
  | CallSetFPS int64
  | CallSetBitrate int64
  | CallSetSize int64 int64
  | CallCrop int64 int64 int64 int64
  | CallMute

fun apply_call :: "Video \<Rightarrow> call \<Rightarrow> Video" where
  "apply_call v (CallSetStart t) = SetStart v t"
| "apply_call v (CallSetEnd t) = SetEnd v t"
| "apply_call v (CallTrim s e) = Trim v s e"
| "apply_call v (CallSetFPS f) = SetFPS v f"
| "apply_call v (CallSetBitrate b) = SetBitrate v b"
| "apply_call v (CallSetSize w h) = SetSize v w h"
| "apply_call v (CallCrop x y w h) = Crop v x y w h"
| "apply_call v CallMute = Mute v"

definition apply_calls :: "Video \<Rightarrow> call list \<Rightarrow> Video" where
  "apply_calls v cs = foldl apply_call v cs"

text \<open>The state invariant \<open>0 \<le> start \<le> end \<le> duration\<close>.\<close>

definition trim_invariant :: "Video \<Rightarrow> bool" where
  "trim_invariant v = (0 \<le>s start v \<and> start v \<le>s end' v \<and> end' v \<le>s duration v)"


section \<open>Load\<close>

text \<open>
  Every \<^verbatim>\<open>errors.New\<close> of the package is a constructor of \<open>error\<close>, and so are the
  errors of \<^verbatim>\<open>os.Create\<close> and \<^verbatim>\<open>os.Remove\<close> that the package hands on unchanged; a
  run-time panic (an index out of range) is kept apart from a returned error.
\<close>

datatype error =
    FfprobeNotFound
  | UnableToLoadFile
  | FfprobeFailed
  | UnableToParseJSON
  | NoStreamData
  | InvalidDuration
  | InvalidBitrate
  | InvalidRotation
  | FfmpegFailed
  | OsCreateError
  | OsRemoveError

datatype failure = Returned error | Panic

text \<open>
  The report of ffprobe after \<^verbatim>\<open>json.Unmarshal\<close>. A \<^verbatim>\<open>json.Number\<close> is read by
  \<^verbatim>\<open>Int64()\<close> or \<^verbatim>\<open>Float64()\<close>, which return a value or an error: \<open>Parsed x\<close> or
  \<open>ParseError\<close>. \<open>DurationSec\<close> holds what \<^verbatim>\<open>Float64()\<close> and the conversion
  \<^verbatim>\<open>time.Duration(secs*float64(time.Second) + 0.5)\<close> yield together, since the
  floating-point steps are not part of the embedding: the conversion truncates towards
  zero, so a report of \<^verbatim>\<open>60\<close> seconds is \<open>Parsed 60000000000\<close> and one of \<^verbatim>\<open>-1\<close> second is
  \<open>Parsed (-999999999)\<close>. The optional tag \<^verbatim>\<open>rotate\<close> is a pointer: \<open>None\<close> is \<^verbatim>\<open>nil\<close>.
\<close>

datatype 'a parsed = Parsed 'a | ParseError

record stream =
  Width :: int64
  Height :: int64
  Rotation :: "int64 parsed option"

record description =
  Streams :: "stream list"
  DurationSec :: "Duration parsed"
  Bitrate :: "int64 parsed"

datatype probe = ProbeFailed | ProbeUnparsable | ProbeReport description

text \<open>
  What the package sees of its surroundings: the files (path to content), whether
  \<^verbatim>\<open>exec.LookPath("ffprobe")\<close> succeeds, the paths on which \<^verbatim>\<open>os.Stat\<close>, \<^verbatim>\<open>os.Create\<close>,
  a write or \<^verbatim>\<open>os.Remove\<close> return an error, and what running ffprobe on a path gives
  (the process fails, its output does not decode, or the decoded report).
\<close>

record world =
  files :: "string \<rightharpoonup> string"
  ffprobe_found :: bool
  stat_err :: "string \<Rightarrow> bool"
  create_err :: "string \<Rightarrow> bool"
  write_err :: "string \<Rightarrow> bool"
  remove_err :: "string \<Rightarrow> bool"
  ffprobe :: "string \<Rightarrow> probe"

text \<open>
  The loop that picks the stream: the index of the first stream with non-zero width and
  height, and 0 when the loop ends without a \<^verbatim>\<open>break\<close>.
\<close>

fun selectStream :: "stream list \<Rightarrow> nat \<Rightarrow> nat" where
  "selectStream [] index = 0"
| "selectStream (v # vs) index =
     (if Width v \<noteq> 0 \<and> Height v \<noteq> 0 then index else selectStream vs (Suc index))"

text \<open>
  \<^verbatim>\<open>flipCount := rotation / 90; flipCount%2 != 0\<close> on \<^verbatim>\<open>int64\<close>: Go's quotient and
  remainder truncate towards zero (\<open>sdiv\<close>, \<open>smod\<close> on the signed value); the quotient by
  90 cannot overflow.
\<close>

definition flipped :: "int64 \<Rightarrow> bool" where
  "flipped rotation = (let flipCount = sint rotation sdiv 90 in flipCount smod 2 \<noteq> 0)"

definition Load :: "world \<Rightarrow> string \<Rightarrow> failure + Video" where
  "Load w path =
     (if \<not> ffprobe_found w then Inl (Returned FfprobeNotFound)
      else if stat_err w path then Inl (Returned UnableToLoadFile)
      else case ffprobe w path of
        ProbeFailed \<Rightarrow> Inl (Returned FfprobeFailed)
      | ProbeUnparsable \<Rightarrow> Inl (Returned UnableToParseJSON)
      | ProbeReport desc \<Rightarrow>
          if length (Streams desc) = 0 then Inl (Returned NoStreamData)
          else
           (case DurationSec desc of
              ParseError \<Rightarrow> Inl (Returned InvalidDuration)
            | Parsed dur \<Rightarrow>
               (case Bitrate desc of
                  ParseError \<Rightarrow> Inl (Returned InvalidBitrate)
                | Parsed br \<Rightarrow>
                   (let dsIndex = selectStream (Streams desc) 0;
                        w0 = Width (Streams desc ! dsIndex);
                        h0 = Height (Streams desc ! dsIndex)
                    in (case Rotation (Streams desc ! dsIndex) of
                          Some ParseError \<Rightarrow> Inl (Returned InvalidRotation)
                        | rot \<Rightarrow>
                           (let (w1, h1) =
                                  (case rot of
                                     Some (Parsed rotation) \<Rightarrow>
                                       (if flipped rotation then (h0, w0) else (w0, h0))
                                   | _ \<Rightarrow> (w0, h0))
                            in Inr \<lparr>filepath = path, width = w1, height = h1, fps = 30,
                                    bitrate = br, start = 0, end' = dur, duration = dur,
                                    filters = [], additionalArgs = []\<rparr>))))))"


section \<open>Paths\<close>

text \<open>
  The functions of Go's \<^verbatim>\<open>path/filepath\<close> that the package calls, on a Unix system (the
  separator is the slash, there is no volume name). \<^verbatim>\<open>Clean\<close> works on the path elements
  between separators: an empty element and \<^verbatim>\<open>.\<close> are dropped; \<^verbatim>\<open>..\<close> removes the
  element before it when that is a real one, is dropped at the root of a rooted path and
  is kept otherwise; any other element is kept. The elements kept so far are the list
  \<open>out\<close>, the last one first. The result is the kept elements joined by slashes, after
  the leading slash of a rooted path, and \<^verbatim>\<open>.\<close> when that is empty.
\<close>

definition IsPathSeparator :: "char \<Rightarrow> bool" where
  "IsPathSeparator c = (c = CHR ''/'')"

fun path_elements :: "string \<Rightarrow> string list" where
  "path_elements [] = [[]]"
| "path_elements (c # cs) =
     (if IsPathSeparator c then [] # path_elements cs
      else (case path_elements cs of [] \<Rightarrow> [[c]] | e # es \<Rightarrow> (c # e) # es))"

definition clean_element :: "bool \<Rightarrow> string list \<Rightarrow> string \<Rightarrow> string list" where
  "clean_element rooted out e =
     (if e = [] then out
      else if e = ''.'' then out
      else if e = ''..'' then
        (if out \<noteq> [] \<and> hd out \<noteq> ''..'' then tl out
         else if \<not> rooted then ''..'' # out
         else out)
      else e # out)"

definition clean_string :: "bool \<Rightarrow> string list \<Rightarrow> string" where
  "clean_string rooted out =
     (let s = (if rooted then ''/'' else []) @ strings_Join (rev out) ''/''
      in if s = [] then ''.'' else s)"


definition filepath_Clean :: "string \<Rightarrow> string" where
  "filepath_Clean path =
     (if path = [] then ''.''
      else let rooted = IsPathSeparator (hd path)
           in clean_string rooted (foldl (clean_element rooted) [] (path_elements path)))"

text \<open>\<^verbatim>\<open>Dir\<close>: the path up to and including its last separator, cleaned.\<close>

definition filepath_Dir :: "string \<Rightarrow> string" where
  "filepath_Dir path = filepath_Clean (rev (dropWhile (\<lambda>c. \<not> IsPathSeparator c) (rev path)))"

text \<open>
  \<^verbatim>\<open>Base\<close>: the last element of the path after stripping trailing separators; \<^verbatim>\<open>.\<close> for
  the empty path and a single separator for a path of separators only.
\<close>

definition filepath_Base :: "string \<Rightarrow> string" where
  "filepath_Base path =
     (if path = [] then ''.''
      else let path1 = rev (dropWhile IsPathSeparator (rev path));
               path2 = rev (takeWhile (\<lambda>c. \<not> IsPathSeparator c) (rev path1))
           in if path2 = [] then ''/'' else path2)"

text \<open>
  \<^verbatim>\<open>Join\<close>: leading empty elements are skipped, the rest is joined by separators and
  cleaned; the empty string when every element is empty.
\<close>

definition filepath_Join :: "string list \<Rightarrow> string" where
  "filepath_Join elem =
     (case dropWhile (\<lambda>e. e = []) elem of
        [] \<Rightarrow> []
      | e # es \<Rightarrow> filepath_Clean (strings_Join (e # es) ''/''))"

section \<open>Clip\<close>

record Clip =
  videosPath :: "string list"
  concatListCache :: string


text \<open>\<^verbatim>\<open>Clip.CommandLine\<close>; \<^verbatim>\<open>c.videosPath[0]\<close> panics on the empty slice.\<close>

definition Clip_CommandLine :: "Clip \<Rightarrow> string \<Rightarrow> failure + string list" where
  "Clip_CommandLine c output =
     (let cmdline = [''ffmpeg'', ''-y'', ''-f'', ''concat'', ''-i'', concatListCache c,
                     ''-c'', ''copy'']
      in (case videosPath c of
            [] \<Rightarrow> Inl Panic
          | first # rest \<Rightarrow>
              Inr (cmdline @ [''-fflags'', ''+genpts'',
                              filepath_Join [filepath_Dir first, output]])))"

text \<open>
  The file operations. \<^verbatim>\<open>os.Create\<close> makes the file empty or fails; a write appends to
  the file or fails, leaving it as it is; \<^verbatim>\<open>os.Remove\<close> fails on a path that is not there.
  Each returns its error (\<open>None\<close> is \<^verbatim>\<open>nil\<close>) and the world after it.
\<close>

definition os_Create :: "world \<Rightarrow> string \<Rightarrow> error option \<times> world" where
  "os_Create w name =
     (if create_err w name then (Some OsCreateError, w)
      else (None, w\<lparr>files := (files w)(name \<mapsto> [])\<rparr>))"

definition Fprintf :: "world \<Rightarrow> string \<Rightarrow> string \<Rightarrow> world" where
  "Fprintf w name text =
     (if write_err w name then w
      else w\<lparr>files := (files w)(name \<mapsto> (case files w name of None \<Rightarrow> text | Some old \<Rightarrow> old @ text))\<rparr>)"

definition os_Remove :: "world \<Rightarrow> string \<Rightarrow> error option \<times> world" where
  "os_Remove w name =
     (if remove_err w name \<or> files w name = None then (Some OsRemoveError, w)
      else (None, w\<lparr>files := (files w)(name := None)\<rparr>))"

text \<open>The line \<^verbatim>\<open>file '%s'\n\<close> of the manifest.\<close>

definition manifest_line :: "string \<Rightarrow> string" where
  "manifest_line video = ''file '' @ [CHR 0x27] @ filepath_Base video @ [CHR 0x27, CHR 0x0A]"

text \<open>
  \<^verbatim>\<open>saveConcatenateList\<close> returns the error of \<^verbatim>\<open>os.Create\<close> and writes nothing then;
  the results of the \<^verbatim>\<open>fmt.Fprintf\<close> calls in its loop are not looked at.
\<close>

definition saveConcatenateList :: "world \<Rightarrow> Clip \<Rightarrow> error option \<times> world" where
  "saveConcatenateList w c =
     (case os_Create w (concatListCache c) of
        (Some err, w1) \<Rightarrow> (Some err, w1)
      | (None, w1) \<Rightarrow>
          (None, foldl (\<lambda>w2 video. Fprintf w2 (concatListCache c) (manifest_line video))
                   w1 (videosPath c)))"

definition deleteConcatenateList :: "world \<Rightarrow> Clip \<Rightarrow> error option \<times> world" where
  "deleteConcatenateList w c =
     (case os_Remove w (concatListCache c) of
        (Some err, w1) \<Rightarrow> (Some err, w1)
      | (None, w1) \<Rightarrow> (None, w1))"

text \<open>
  \<^verbatim>\<open>ConcatenateWithStreams\<close>. Running ffmpeg is the parameter \<open>run\<close>: from the command
  line and the world it gives whether \<^verbatim>\<open>cmd.Run()\<close> returned \<^verbatim>\<open>nil\<close>, and the world
  after the process. The result of \<^verbatim>\<open>saveConcatenateList\<close> is dropped by the caller; the
  deferred \<^verbatim>\<open>deleteConcatenateList\<close> runs on every way out, a panic of \<^verbatim>\<open>CommandLine\<close>
  included, and its result is dropped too. The two stream arguments only receive the
  output of the process and are left out.
\<close>

definition ConcatenateWithStreams ::
  "(string list \<Rightarrow> world \<Rightarrow> bool \<times> world) \<Rightarrow> world \<Rightarrow> Clip \<Rightarrow> string \<Rightarrow> failure option \<times> world" where
  "ConcatenateWithStreams run w c output =
     (let w1 = snd (saveConcatenateList w c)
      in (case Clip_CommandLine c output of
            Inl f \<Rightarrow> (Some f, snd (deleteConcatenateList w1 c))
          | Inr line \<Rightarrow>
              (let (ok, w2) = run line w1;
                   err = (if ok then None else Some (Returned FfmpegFailed))
               in (err, snd (deleteConcatenateList w2 c)))))"



section \<open>Concrete inputs\<close>

text \<open>
  A report with an audio stream and a video stream of 1080 by 1920 rotated by 90 degrees,
  60 seconds long; a world in which every operation succeeds and ffprobe gives that
  report; and the video that \<open>Load\<close> makes of it. The second world reports a duration of
  \<^verbatim>\<open>-1\<close> second.
\<close>

definition example_description :: description where
  "example_description =
     \<lparr>Streams = [\<lparr>Width = 0, Height = 0, Rotation = None\<rparr>,
                 \<lparr>Width = 1080, Height = 1920, Rotation = Some (Parsed 90)\<rparr>],
      DurationSec = Parsed 60000000000, Bitrate = Parsed 0\<rparr>"

definition example_world :: world where
  "example_world =
     \<lparr>files = Map.empty, ffprobe_found = True, stat_err = (\<lambda>p. False),
      create_err = (\<lambda>p. False), write_err = (\<lambda>p. False), remove_err = (\<lambda>p. False),
      ffprobe = (\<lambda>p. ProbeReport example_description)\<rparr>"

definition example_video :: Video where
  "example_video =
     \<lparr>filepath = ''example.mp4'', width = 1920, height = 1080, fps = 30, bitrate = 0,
      start = 0, end' = 60000000000, duration = 60000000000, filters = [], additionalArgs = []\<rparr>"

definition negative_world :: world where
  "negative_world =
     example_world\<lparr>ffprobe :=
       (\<lambda>p. ProbeReport (example_description\<lparr>DurationSec := Parsed (- 999999999)\<rparr>))\<rparr>"

definition negative_video :: Video where
  "negative_video = example_video\<lparr>end' := - 999999999, duration := - 999999999\<rparr>"


text \<open>
  Two clips in the directory \<^verbatim>\<open>clips\<close> and the \<open>Clip\<close> that \<open>NewClip\<close> makes of them; a
  world in which \<^verbatim>\<open>os.Create\<close> fails and an old manifest is in place; and an ffmpeg that
  exits with status 0, or with status 1, and leaves the files alone.
\<close>

definition example_clip :: Clip where
  "example_clip =
     \<lparr>videosPath = [''clips/a.mov'', ''clips/b.mov''], concatListCache = ''clips/concat.txt''\<rparr>"

definition readonly_world :: world where
  "readonly_world =
     example_world\<lparr>files := [''clips/concat.txt'' \<mapsto> ''stale''], create_err := (\<lambda>p. True)\<rparr>"

definition ffmpeg_exit_0 :: "string list \<Rightarrow> world \<Rightarrow> bool \<times> world" where
  "ffmpeg_exit_0 line w = (True, w)"

definition ffmpeg_exit_1 :: "string list \<Rightarrow> world \<Rightarrow> bool \<times> world" where
  "ffmpeg_exit_1 line w = (False, w)"

section \<open>Facts about the values\<close>

lemma sint_Second: "sint Second = 1000000000"
  by (simp add: Second_def)

lemma smod_2_odd: "(k smod 2 \<noteq> 0) = odd (k::int)"
  by (simp add: signed_modulo_int_def sgn_if abs_if) presburger

lemma flipped_odd: "flipped r = odd (sint r sdiv 90)"
  by (simp add: flipped_def smod_2_odd)

lemma flipped_90: "flipped 90"
  by (simp add: flipped_def signed_divide_int_def signed_modulo_int_def)

lemma strings_Join_snoc:
  "strings_Join (xs @ [t]) sep = (if xs = [] then t else strings_Join xs sep @ sep @ t)"
  by (induction xs sep rule: strings_Join.induct) auto

text \<open>The index that the loop picks is within the slice, so \<open>Load\<close> does not panic.\<close>

lemma selectStream_bounds:
  "selectStream vs i = 0 \<or> (i \<le> selectStream vs i \<and> selectStream vs i < i + length vs)"
proof (induction vs arbitrary: i)
  case Nil
  show ?case by simp
next
  case (Cons v vs)
  show ?case
    using Cons [of "Suc i"] by auto
qed

lemma selectStream_in_range: "vs \<noteq> [] \<Longrightarrow> selectStream vs 0 < length vs"
  using selectStream_bounds [of vs 0] by auto

lemma Load_example: "Load example_world ''example.mp4'' = Inr example_video"
  by (simp add: Load_def example_world_def example_description_def example_video_def flipped_90)

lemma Load_negative: "Load negative_world ''example.mp4'' = Inr negative_video"
  by (simp add: Load_def negative_world_def negative_video_def example_world_def
      example_description_def example_video_def flipped_90)

section \<open>The trim bounds\<close>

lemma sint_clampToDuration:
  "sint (clampToDuration v t) = min (max (sint t) 0) (sint (duration v))"
  by (auto simp: clampToDuration_def Let_def word_sless_alt)

lemma clampToDuration_range:
  "0 \<le>s duration v \<Longrightarrow> 0 \<le>s clampToDuration v t \<and> clampToDuration v t \<le>s duration v"
  by (auto simp: clampToDuration_def Let_def word_sle_eq word_sless_alt)

lemma SetStart_invariant:
  "0 \<le>s duration v \<Longrightarrow> end' v \<le>s duration v \<Longrightarrow> trim_invariant (SetStart v t)"
  using clampToDuration_range [of v t]
  by (auto simp: SetStart_def trim_invariant_def Let_def word_sle_eq word_sless_alt)

lemma SetEnd_invariant:
  "0 \<le>s duration v \<Longrightarrow> 0 \<le>s start v \<Longrightarrow> trim_invariant (SetEnd v t)"
  using clampToDuration_range [of v t]
  by (auto simp: SetEnd_def trim_invariant_def Let_def word_sle_eq word_sless_alt)

lemma SetStart_duration: "duration (SetStart v t) = duration v"
  by (simp add: SetStart_def Let_def)

lemma SetEnd_duration: "duration (SetEnd v t) = duration v"
  by (simp add: SetEnd_def Let_def)

lemma apply_call_duration: "duration (apply_call v c) = duration v"
  by (cases c)
    (simp_all add: SetStart_duration SetEnd_duration Trim_def SetFPS_def SetBitrate_def
      SetSize_def Crop_def Mute_def)

lemma apply_call_invariant:
  assumes "0 \<le>s duration v" and "trim_invariant v"
  shows "trim_invariant (apply_call v c)"
proof -
  have lo: "0 \<le>s start v" and hi: "end' v \<le>s duration v"
    using assms(2) by (simp_all add: trim_invariant_def)
  show ?thesis
  proof (cases c)
    case (CallSetStart t)
    then show ?thesis using SetStart_invariant [OF assms(1) hi] by simp
  next
    case (CallSetEnd t)
    then show ?thesis using SetEnd_invariant [OF assms(1) lo] by simp
  next
    case (CallTrim s e)
    have 1: "trim_invariant (SetStart v s)"
      by (rule SetStart_invariant [OF assms(1) hi])
    then have "0 \<le>s start (SetStart v s)"
      by (simp add: trim_invariant_def)
    then have "trim_invariant (SetEnd (SetStart v s) e)"
      using assms(1) by (intro SetEnd_invariant) (simp_all add: SetStart_duration)
    with CallTrim assms(2) show ?thesis by (simp add: Trim_def)
  qed (use assms in \<open>simp_all add: trim_invariant_def SetFPS_def SetBitrate_def SetSize_def
        Crop_def Mute_def\<close>)
qed

lemma apply_calls_invariant:
  "0 \<le>s duration v \<Longrightarrow> trim_invariant v \<Longrightarrow> trim_invariant (apply_calls v cs)"
  unfolding apply_calls_def
  by (induction cs arbitrary: v) (simp_all add: apply_call_invariant apply_call_duration)

lemma Load_initial:
  "Load w path = Inr v \<Longrightarrow> start v = 0 \<and> end' v = duration v"
  by (auto simp: Load_def Let_def
      split: if_splits probe.splits parsed.splits option.splits prod.splits)

text \<open>
  Claim C1, as the code has it. \<open>Load\<close> sets \<open>start = 0\<close> and \<open>end = duration\<close> and does
  not look at the sign of the duration that ffprobe reports (its comment takes the
  seconds to be non-negative). For a video that \<open>Load\<close> returns with a non-negative
  duration, \<open>0 \<le> start \<le> end \<le> duration\<close> holds after every prefix of every sequence of
  calls of \<open>SetStart\<close>, \<open>SetEnd\<close>, \<open>Trim\<close>, \<open>SetFPS\<close>, \<open>SetBitrate\<close>, \<open>SetSize\<close>, \<open>Crop\<close> and
  \<open>Mute\<close>, whatever their arguments.
\<close>

theorem edits_keep_invariant:
  assumes "Load w path = Inr v" and "0 \<le>s duration v"
  shows "trim_invariant (apply_calls v (take k cs))"
proof -
  have "trim_invariant v"
    using Load_initial [OF assms(1)] assms(2) by (simp add: trim_invariant_def)
  with assms(2) show ?thesis by (rule apply_calls_invariant)
qed

theorem edits_keep_invariant_witness:
  "Load example_world ''example.mp4'' = Inr example_video \<and> 0 \<le>s duration example_video \<and>
   trim_invariant (apply_calls example_video
     (take 3 [CallTrim 10000000000 20000000000, CallSetStart 30000000000, CallSetEnd (- 5),
              CallMute]))"
proof -
  have d: "0 \<le>s duration example_video"
    by (simp add: example_video_def word_sle_eq)
  show ?thesis
    using edits_keep_invariant [OF Load_example d, of 3
        "[CallTrim 10000000000 20000000000, CallSetStart 30000000000, CallSetEnd (- 5), CallMute]"]
      Load_example d by simp
qed

text \<open>
  Claim C1 as stated fails: from a report with a duration of \<^verbatim>\<open>-1\<close> second \<open>Load\<close>
  returns a video with \<open>end = duration = -999999999\<close>, and \<open>SetStart(0)\<close> on it clamps the
  start to that negative duration.
\<close>

theorem edits_keep_invariant_counterexample:
  "Load negative_world ''example.mp4'' = Inr negative_video \<and>
   start (apply_calls negative_video [CallSetStart 0]) = - 999999999 \<and>
   \<not> trim_invariant (apply_calls negative_video [CallSetStart 0])"
  by (simp add: Load_negative)
    (simp add: apply_calls_def negative_video_def example_video_def SetStart_def
      clampToDuration_def trim_invariant_def Let_def word_sless_alt word_sle_eq)

text \<open>
  Claim C4, as the code has it. \<open>clampToDuration\<close> first raises a negative \<open>t\<close> to 0 and
  then lowers it to the duration, so \<open>SetStart(t)\<close> sets \<open>start\<close> to
  \<open>min (max t 0) duration\<close>; that is \<open>max 0 (min t duration)\<close> whenever the duration is not
  negative. When the new start exceeds the current end, the end is raised to the new
  start, and it is left as it is otherwise.
\<close>

theorem SetStart_clamp:
  "sint (start (SetStart v t)) = min (max (sint t) 0) (sint (duration v)) \<and>
   (0 \<le>s duration v \<longrightarrow>
      sint (start (SetStart v t)) = max 0 (min (sint t) (sint (duration v)))) \<and>
   end' (SetStart v t) =
     (if end' v <s start (SetStart v t) then start (SetStart v t) else end' v)"
  by (auto simp: SetStart_def Let_def sint_clampToDuration word_sle_eq)

theorem SetStart_clamp_witness:
  "0 \<le>s duration example_video \<and>
   sint (start (SetStart example_video 70000000000)) =
     max 0 (min (sint (70000000000 :: Duration)) (sint (duration example_video))) \<and>
   start (SetStart example_video 70000000000) = 60000000000 \<and>
   end' (SetStart (example_video\<lparr>end' := 5\<rparr>) 70000000000) = 60000000000"
  using SetStart_clamp [of example_video 70000000000]
    SetStart_clamp [of "example_video\<lparr>end' := 5\<rparr>" 70000000000]
  by (simp add: example_video_def SetStart_def clampToDuration_def Let_def word_sless_alt
      word_sle_eq)

text \<open>
  Claim C4 as stated fails on the video that \<open>Load\<close> returns for a duration of \<^verbatim>\<open>-1\<close>
  second: \<open>SetStart\<close> of 5 seconds sets the start to \<open>-999999999\<close>, where
  \<open>max 0 (min t duration)\<close> is 0.
\<close>

theorem SetStart_clamp_counterexample:
  "Load negative_world ''example.mp4'' = Inr negative_video \<and>
   sint (start (SetStart negative_video 5000000000)) = - 999999999 \<and>
   max 0 (min (sint (5000000000 :: Duration)) (sint (duration negative_video))) = 0"
  by (simp add: Load_negative)
    (simp add: negative_video_def example_video_def SetStart_def clampToDuration_def Let_def
      word_sless_alt)

text \<open>
  Claim C5: \<open>Trim(start, end)\<close> with \<open>start > end\<close> returns the video as it was, every
  field unchanged, and has no error to report.
\<close>

theorem Trim_inverted_noop: "e <s s \<Longrightarrow> Trim v s e = v"
  by (simp add: Trim_def word_sle_eq word_sless_alt)

theorem Trim_inverted_noop_witness:
  "(10000000000 :: Duration) <s 20000000000 \<and>
   Trim example_video 20000000000 10000000000 = example_video"
proof -
  have h: "(10000000000 :: Duration) <s 20000000000"
    by (simp add: word_sless_alt)
  show ?thesis using h Trim_inverted_noop [OF h, of example_video] by simp
qed

section \<open>The command line of a video\<close>

text \<open>
  Claim C2: after the program name, \<open>CommandLine\<close> gives the overwrite flag, the input
  path, \<^verbatim>\<open>-ss\<close> with the start in seconds, \<^verbatim>\<open>-t\<close> with end minus start in seconds, \<^verbatim>\<open>-vb\<close>
  with the bitrate, the additional arguments in the order they were appended, one \<^verbatim>\<open>-vf\<close>
  argument, the strictness flags and the output path. The \<^verbatim>\<open>-vf\<close> argument is the comma
  join of the filters in the order they were appended followed by the \<^verbatim>\<open>setsar\<close>/\<^verbatim>\<open>fps\<close>
  fragment as the last one, also when there is no filter.
\<close>

theorem CommandLine_order:
  "CommandLine secs v output =
     [''ffmpeg'', ''-y'', ''-i'', filepath v,
      ''-ss'', secs (start v),
      ''-t'', secs (end' v - start v),
      ''-vb'', Itoa (bitrate v)]
     @ additionalArgs v
     @ [''-vf'', strings_Join (filters v @ [''setsar=1,fps=fps='' @ Itoa (fps v)]) '','',
        ''-strict'', ''-2'', output]"
  by (simp add: CommandLine_def strings_Join_snoc)

text \<open>
  Claim C3, as the code has it: \<open>CommandLine\<close> has no case for a bitrate of 0. The
  arguments at positions 8 and 9 are always \<^verbatim>\<open>-vb\<close> and the bitrate in decimal, which is
  \<^verbatim>\<open>-vb 0\<close> for the bitrate 0.
\<close>

theorem CommandLine_bitrate_always_passed:
  "take 2 (drop 8 (CommandLine secs v output)) = [''-vb'', Itoa (bitrate v)] \<and>
   take 2 (drop 8 (CommandLine secs (v\<lparr>bitrate := 0\<rparr>) output)) = [''-vb'', ''0'']"
  by (simp add: CommandLine_def Itoa_def decimal.simps digit_def)

text \<open>
  Claim C3 as stated fails: the video that \<open>Load\<close> returns for a report with the bit
  rate 0 compiles to a command line with the argument \<^verbatim>\<open>-vb\<close>.
\<close>

theorem CommandLine_bitrate_zero_counterexample:
  "bitrate example_video = 0 \<and>
   CommandLine WholeSeconds example_video ''out.mov'' =
     [''ffmpeg'', ''-y'', ''-i'', ''example.mp4'', ''-ss'', ''0'', ''-t'', ''60'',
      ''-vb'', ''0'', ''-vf'', ''setsar=1,fps=fps=30'', ''-strict'', ''-2'', ''out.mov'']"
  by (simp add: CommandLine_def example_video_def WholeSeconds_def sint_Second
      signed_divide_int_def Itoa_def decimal.simps digit_def)

section \<open>Rotation\<close>

text \<open>
  Claim C6: when \<open>Load\<close> returns a video and the stream it selected carries the rotation
  \<open>r\<close>, the width and height of the video are those of the stream swapped if \<open>r / 90\<close>,
  truncated towards zero, is odd, and those of the stream as they are if it is even.
\<close>

theorem Load_rotation:
  assumes "Load w path = Inr v"
    and "ffprobe w path = ProbeReport desc"
    and "Rotation (Streams desc ! selectStream (Streams desc) 0) = Some (Parsed r)"
  shows "(width v, height v) =
     (if odd (sint r sdiv 90)
      then (Height (Streams desc ! selectStream (Streams desc) 0),
            Width (Streams desc ! selectStream (Streams desc) 0))
      else (Width (Streams desc ! selectStream (Streams desc) 0),
            Height (Streams desc ! selectStream (Streams desc) 0)))"
  using assms
  by (auto simp: Load_def Let_def flipped_odd
      split: if_splits probe.splits parsed.splits option.splits prod.splits)

text \<open>
  The instance of the claim: a rotation of 90 on a stream of 1080 by 1920 gives a video
  of width 1920 and height 1080.
\<close>

theorem Load_rotation_witness:
  "Load example_world ''example.mp4'' = Inr example_video \<and>
   ffprobe example_world ''example.mp4'' = ProbeReport example_description \<and>
   Streams example_description ! selectStream (Streams example_description) 0 =
     \<lparr>Width = 1080, Height = 1920, Rotation = Some (Parsed 90)\<rparr> \<and>
   (width example_video, height example_video) = (1920, 1080)"
proof -
  have p: "ffprobe example_world ''example.mp4'' = ProbeReport example_description"
    by (simp add: example_world_def)
  have s: "Streams example_description ! selectStream (Streams example_description) 0 =
     \<lparr>Width = 1080, Height = 1920, Rotation = Some (Parsed 90)\<rparr>"
    by (simp add: example_description_def)
  have r: "Rotation (Streams example_description ! selectStream (Streams example_description) 0)
     = Some (Parsed 90)"
    by (simp add: s)
  have o: "odd (sint (90 :: int64) sdiv 90)"
    by (simp add: signed_divide_int_def)
  show ?thesis
    using Load_rotation [OF Load_example p r] Load_example p s o by simp
qed

section \<open>Facts about paths\<close>

























section \<open>Clips\<close>








text \<open>
  Claim C7 fails on the code, which drops the result of \<open>saveConcatenateList\<close>: where
  \<^verbatim>\<open>os.Create\<close> fails on the manifest and ffmpeg exits with status 0 (an old manifest is in
  place), \<open>saveConcatenateList\<close> returns the error of \<^verbatim>\<open>os.Create\<close> and
  \<open>ConcatenateWithStreams\<close> returns \<^verbatim>\<open>nil\<close>; where ffmpeg exits with status 1 it returns the
  error of ffmpeg.
\<close>

theorem ConcatenateWithStreams_drops_manifest_error:
  "fst (saveConcatenateList readonly_world example_clip) = Some OsCreateError \<and>
   fst (ConcatenateWithStreams ffmpeg_exit_0 readonly_world example_clip ''concat.mov'') = None \<and>
   fst (ConcatenateWithStreams ffmpeg_exit_1 readonly_world example_clip ''concat.mov'')
     = Some (Returned FfmpegFailed)"
  by (simp add: ConcatenateWithStreams_def saveConcatenateList_def os_Create_def
      Clip_CommandLine_def readonly_world_def example_world_def example_clip_def
      ffmpeg_exit_0_def ffmpeg_exit_1_def)








end
